theory Spec2Isabelle
  imports Main
begin

section \<open>Mint calldata helpers (orderbook/mints/calldata/helpers.ts)\<close>

text \<open>
  A shallow embedding of the sanitizers \<open>toSafeTimestamp\<close> and \<open>toSafeNumber\<close>, of the two
  counters \<open>getAmountMinted\<close> and \<open>getCurrentSupply\<close>, and of the status resolver
  \<open>getStatus\<close>. A promise is modelled by the list of statements it sent to the data store
  together with the value it settled to: \<open>Inl\<close> is a rejection, \<open>Inr\<close> a fulfilment.
\<close>

subsection \<open>Errors\<close>

datatype error =
    DataUnavailable     \<comment> \<open>the store could not run the statement\<close>
  | NoData              \<comment> \<open>\<open>one\<close>: the statement returned no row\<close>
  | MultipleRows        \<comment> \<open>\<open>one\<close>, \<open>oneOrNone\<close>: the statement returned several rows\<close>
  | InvalidBigNumber    \<comment> \<open>\<open>bn\<close>: the string is not a decimal number\<close>
  | Overflow            \<comment> \<open>\<open>toNumber\<close>: the value does not fit a number\<close>

subsection \<open>Big numbers and decimal strings\<close>

text \<open>
  The values a caller hands to \<open>bn\<close>: a string, a number or a big number. The sanitizers
  read unsigned on-chain quantities (timestamps, supplies), so the numeric value is a
  natural number; \<open>Num n\<close> is a number that holds the integer \<open>n\<close> exactly, \<open>Big n\<close> a
  big-number object of value \<open>n\<close>.
\<close>

datatype BigNumberish = Str string | Num nat | Big nat

definition digit_char :: "nat \<Rightarrow> char" where
  "digit_char d = ''0123456789'' ! d"

definition digit_val :: "char \<Rightarrow> nat option" where
  "digit_val c =
     map_of [(CHR ''0'', 0), (CHR ''1'', 1), (CHR ''2'', 2), (CHR ''3'', 3), (CHR ''4'', 4),
             (CHR ''5'', 5), (CHR ''6'', 6), (CHR ''7'', 7), (CHR ''8'', 8), (CHR ''9'', 9)] c"

fun parse_digits :: "nat \<Rightarrow> string \<Rightarrow> nat option" where
  "parse_digits acc [] = Some acc"
| "parse_digits acc (c # cs) =
     (case digit_val c of None \<Rightarrow> None | Some d \<Rightarrow> parse_digits (10 * acc + d) cs)"

text \<open>
  Modelled from the spec: \<open>bn\<close> (common/utils) is not under src/. It reads a decimal string
  as an arbitrary-precision integer, and a string that is not a valid non-negative integer
  fails; a number or a big number is taken as it is.
\<close>

fun bn :: "BigNumberish \<Rightarrow> error + nat" where
  "bn (Str s) =
     (if s = [] then Inl InvalidBigNumber
      else case parse_digits 0 s of None \<Rightarrow> Inl InvalidBigNumber | Some n \<Rightarrow> Inr n)"
| "bn (Num n) = Inr n"
| "bn (Big n) = Inr n"

text \<open>\<open>toString\<close> of a big number: its decimal digits, without leading zeros.\<close>

fun toString :: "nat \<Rightarrow> string" where
  "toString n =
     (if n < 10 then [digit_char n] else toString (n div 10) @ [digit_char (n mod 10)])"

declare toString.simps [simp del]

text \<open>
  \<open>toNumber\<close> of a big number: the value itself when a number holds it exactly (at most
  \<open>2^53 - 1\<close>), an overflow error beyond.
\<close>

definition toNumber :: "nat \<Rightarrow> error + nat" where
  "toNumber n = (if n \<le> 9007199254740991 then Inr n else Inl Overflow)"

text \<open>
  \<open>!value\<close> for an optional \<open>BigNumberish\<close>: undefined, the empty string and the number 0
  are falsy; a non-empty string (also \<open>''0''\<close>) and a big-number object are not.
\<close>

definition falsy :: "BigNumberish option \<Rightarrow> bool" where
  "falsy value =
     (case value of
        None \<Rightarrow> True
      | Some (Str s) \<Rightarrow> s = []
      | Some (Num n) \<Rightarrow> n = 0
      | Some (Big n) \<Rightarrow> False)"

subsection \<open>Sanitizers\<close>

text \<open>helpers.ts, lines 19-26. \<open>None\<close> is \<open>undefined\<close>.\<close>

definition toSafeTimestamp :: "BigNumberish option \<Rightarrow> error + nat option" where
  "toSafeTimestamp value =
     (if falsy value then Inr None
      else case value of
        None \<Rightarrow> Inr None
      | Some v \<Rightarrow>
          (case bn v of
             Inl e \<Rightarrow> Inl e
           | Inr converted \<Rightarrow>
               if converted = 0 \<or> 9999999999 \<le> converted then Inr None
               else (case toNumber converted of Inl e \<Rightarrow> Inl e | Inr t \<Rightarrow> Inr (Some t))))"

text \<open>helpers.ts, lines 29-50.\<close>

definition sentinels :: "string list" where
  "sentinels =
     [''0'',
      ''2147483647'',
      ''4294967295'',
      ''18446744073709551615'',
      ''340282366920938463463374607431768211455'',
      ''115792089237316195423570985008687907853269984665640564039457584007913129639935'']"

definition toSafeNumber :: "BigNumberish option \<Rightarrow> error + string option" where
  "toSafeNumber value =
     (if falsy value then Inr None
      else case value of
        None \<Rightarrow> Inr None
      | Some v \<Rightarrow>
          (case bn v of
             Inl e \<Rightarrow> Inl e
           | Inr converted \<Rightarrow>
               if toString converted \<in> set sentinels then Inr None
               else Inr (Some (toString converted))))"

subsection \<open>The mint descriptor and the verdict\<close>

datatype CollectionMintStatus = Open | Closed

datatype CollectionMintStatusReason = NotYetStarted | Ended | MaxSupplyExceeded

text \<open>
  Modelled from the spec: the type \<open>CollectionMint\<close> (orderbook/mints) is declared outside
  src/. The fields the helpers read are an opaque collection key, the contract address, an
  optional token id and an optional maximum supply (both decimal strings), optional start
  and end times (numbers, Unix seconds) and an optional status override.
\<close>

record CollectionMint =
  collection :: string
  contract :: string
  tokenId :: "string option"
  startTime :: "int option"
  endTime :: "int option"
  maxSupply :: "string option"
  status :: "CollectionMintStatus option"

text \<open>The object \<open>getStatus\<close> resolves to: \<open>{ status, reason? }\<close>.\<close>

record StatusVerdict =
  verdict_status :: CollectionMintStatus
  reason :: "CollectionMintStatusReason option"

text \<open>
  The truthiness tests \<open>if (collectionMint.tokenId)\<close> and \<open>if (collectionMint.maxSupply)\<close> on an
  optional string, and \<open>collectionMint.startTime && ...\<close> on an optional number: an absent
  field, the empty string and the number 0 are falsy. The result is the value when it is
  truthy.
\<close>

definition truthy_string :: "string option \<Rightarrow> string option" where
  "truthy_string field = (case field of None \<Rightarrow> None | Some s \<Rightarrow> if s = [] then None else Some s)"

definition truthy_number :: "int option \<Rightarrow> int option" where
  "truthy_number field = (case field of None \<Rightarrow> None | Some t \<Rightarrow> if t = 0 then None else Some t)"

subsection \<open>The data store\<close>

text \<open>
  Modelled from the spec: the schema of the store is not under src/; the columns are the
  ones the statements of helpers.ts name. Address columns hold byte buffers, amounts are
  arbitrary-precision integers, \<open>is_deleted\<close> is 0 or 1, and \<open>collections.token_count\<close> may
  be NULL (\<open>None\<close>).
\<close>

type_synonym buffer = "nat list"

record nft_transfer_event =
  te_address :: buffer
  te_token_id :: string
  te_is_deleted :: int
  te_from :: buffer
  te_to :: buffer
  te_amount :: int

record nft_balance =
  nb_contract :: buffer
  nb_token_id :: string
  nb_amount :: int

record collection_row =
  c_id :: string
  c_token_count :: "int option"

record database =
  nft_transfer_events :: "nft_transfer_event list"
  nft_balances :: "nft_balance list"
  collections :: "collection_row list"

text \<open>
  The connection \<open>idb\<close>: either the store answers from its tables, or every statement fails
  with the given error.
\<close>

type_synonym idb = "error + database"

datatype statement =
    SumTransfersOfToken
  | SumTransfersOfContract
  | SumBalancesOfToken
  | TokenCountOfCollection

type_synonym 'a promise = "statement list \<times> (error + 'a)"

definition resolve :: "'a \<Rightarrow> 'a promise" where
  "resolve v = ([], Inr v)"

text \<open>\<open>idb.one\<close>: exactly one row is expected; no row and several rows are errors.\<close>

definition idb_one :: "idb \<Rightarrow> statement \<Rightarrow> (database \<Rightarrow> 'r list) \<Rightarrow> 'r promise" where
  "idb_one idb st rows =
     ([st],
      case idb of
        Inl e \<Rightarrow> Inl e
      | Inr db \<Rightarrow> (case rows db of [] \<Rightarrow> Inl NoData | [r] \<Rightarrow> Inr r | _ \<Rightarrow> Inl MultipleRows))"

text \<open>\<open>idb.oneOrNone\<close>: no row gives \<open>null\<close> (\<open>None\<close>); several rows are an error.\<close>

definition idb_oneOrNone :: "idb \<Rightarrow> statement \<Rightarrow> (database \<Rightarrow> 'r list) \<Rightarrow> 'r option promise" where
  "idb_oneOrNone idb st rows =
     ([st],
      case idb of
        Inl e \<Rightarrow> Inl e
      | Inr db \<Rightarrow> (case rows db of [] \<Rightarrow> Inr None | [r] \<Rightarrow> Inr (Some r) | _ \<Rightarrow> Inl MultipleRows))"

text \<open>\<open>p.then(f)\<close>.\<close>

definition then_promise :: "'a promise \<Rightarrow> ('a \<Rightarrow> 'b) \<Rightarrow> 'b promise" where
  "then_promise p f = (fst p, case snd p of Inl e \<Rightarrow> Inl e | Inr r \<Rightarrow> Inr (f r))"

text \<open>SQL: \<open>sum\<close> over no row is NULL; \<open>coalesce\<close> replaces NULL.\<close>

definition sql_sum :: "int list \<Rightarrow> int option" where
  "sql_sum xs = (if xs = [] then None else Some (sum_list xs))"

definition coalesce :: "'a option \<Rightarrow> 'a \<Rightarrow> 'a" where
  "coalesce v d = (case v of None \<Rightarrow> d | Some x \<Rightarrow> x)"

text \<open>
  The four statements. An aggregate without GROUP BY returns exactly one row; the lookup
  in \<open>collections\<close> returns one row for each record with the given id. Each row is its
  single column.
\<close>

definition select_amount_minted_of_token ::
    "buffer \<Rightarrow> string \<Rightarrow> buffer \<Rightarrow> buffer \<Rightarrow> database \<Rightarrow> int list" where
  "select_amount_minted_of_token contract_p tokenId_p from_p to_p db =
     [coalesce (sql_sum (map te_amount (filter
        (\<lambda>r. te_address r = contract_p
           \<and> te_token_id r = tokenId_p
           \<and> te_is_deleted r = 0
           \<and> te_from r = from_p
           \<and> te_to r = to_p)
        (nft_transfer_events db)))) 0]"

definition select_amount_minted_of_contract ::
    "buffer \<Rightarrow> buffer \<Rightarrow> buffer \<Rightarrow> database \<Rightarrow> int list" where
  "select_amount_minted_of_contract contract_p from_p to_p db =
     [coalesce (sql_sum (map te_amount (filter
        (\<lambda>r. te_address r = contract_p
           \<and> te_is_deleted r = 0
           \<and> te_from r = from_p
           \<and> te_to r = to_p)
        (nft_transfer_events db)))) 0]"

definition select_token_count_of_token :: "buffer \<Rightarrow> string \<Rightarrow> database \<Rightarrow> int list" where
  "select_token_count_of_token contract_p tokenId_p db =
     [coalesce (sql_sum (map nb_amount (filter
        (\<lambda>r. nb_contract r = contract_p
           \<and> nb_token_id r = tokenId_p
           \<and> nb_amount r > 0)
        (nft_balances db)))) 0]"

definition select_token_count_of_collection :: "string \<Rightarrow> database \<Rightarrow> int list" where
  "select_token_count_of_collection collection_p db =
     map (\<lambda>r. coalesce (c_token_count r) 0)
       (filter (\<lambda>r. c_id r = collection_p) (collections db))"

subsection \<open>Counters\<close>

definition AddressZero :: string where
  "AddressZero = ''0x0000000000000000000000000000000000000000''"

text \<open>
  helpers.ts, lines 117-181. \<open>toBuffer\<close> (common/utils) is not under src/ and is a parameter.
  The store hands the sum over as a decimal string and \<open>bn\<close> reads the same integer back;
  the timing and the log line do not change the result.
\<close>

definition getAmountMinted ::
    "(string \<Rightarrow> buffer) \<Rightarrow> idb \<Rightarrow> CollectionMint \<Rightarrow> string \<Rightarrow> int promise" where
  "getAmountMinted toBuffer idb collectionMint user =
     (case truthy_string (tokenId collectionMint) of
        Some t \<Rightarrow>
          then_promise
            (idb_one idb SumTransfersOfToken
               (select_amount_minted_of_token (toBuffer (contract collectionMint)) t
                  (toBuffer AddressZero) (toBuffer user)))
            (\<lambda>amount_minted. amount_minted)
      | None \<Rightarrow>
          then_promise
            (idb_one idb SumTransfersOfContract
               (select_amount_minted_of_contract (toBuffer (contract collectionMint))
                  (toBuffer AddressZero) (toBuffer user)))
            (\<lambda>amount_minted. amount_minted))"

text \<open>
  helpers.ts, lines 183-219: \<open>oneOrNone\<close>, and \<open>r ? r.token_count : 0\<close> for the row. As in
  \<open>getAmountMinted\<close>, \<open>bn\<close> reads back the integer the store hands over.
\<close>

definition getCurrentSupply :: "(string \<Rightarrow> buffer) \<Rightarrow> idb \<Rightarrow> CollectionMint \<Rightarrow> int promise" where
  "getCurrentSupply toBuffer idb collectionMint =
     (case truthy_string (tokenId collectionMint) of
        Some t \<Rightarrow>
          then_promise
            (idb_oneOrNone idb SumBalancesOfToken
               (select_token_count_of_token (toBuffer (contract collectionMint)) t))
            (\<lambda>r. case r of Some token_count \<Rightarrow> token_count | None \<Rightarrow> 0)
      | None \<Rightarrow>
          then_promise
            (idb_oneOrNone idb TokenCountOfCollection
               (select_token_count_of_collection (collection collectionMint)))
            (\<lambda>r. case r of Some token_count \<Rightarrow> token_count | None \<Rightarrow> 0))"

subsection \<open>Status\<close>

text \<open>
  helpers.ts, lines 221-249. \<open>now\<close> is the reading of the clock (\<open>now()\<close>, Unix seconds).
  The supply is awaited first, and \<open>bn(collectionMint.maxSupply)\<close> is evaluated after it.
\<close>

definition getStatus ::
    "(string \<Rightarrow> buffer) \<Rightarrow> idb \<Rightarrow> int \<Rightarrow> CollectionMint \<Rightarrow> StatusVerdict promise" where
  "getStatus toBuffer idb now collectionMint =
     (if status collectionMint = Some Closed
      then resolve \<lparr>verdict_status = Closed, reason = None\<rparr>
      else let currentTime = now in
        if (case truthy_number (startTime collectionMint) of
              Some t \<Rightarrow> currentTime \<le> t | None \<Rightarrow> False)
        then resolve \<lparr>verdict_status = Closed, reason = Some NotYetStarted\<rparr>
        else if (case truthy_number (endTime collectionMint) of
                   Some t \<Rightarrow> currentTime \<ge> t | None \<Rightarrow> False)
        then resolve \<lparr>verdict_status = Closed, reason = Some Ended\<rparr>
        else
          (case truthy_string (maxSupply collectionMint) of
             Some m \<Rightarrow>
               (case getCurrentSupply toBuffer idb collectionMint of
                  (sent, Inl e) \<Rightarrow> (sent, Inl e)
                | (sent, Inr currentSupply) \<Rightarrow>
                    (case bn (Str m) of
                       Inl e \<Rightarrow> (sent, Inl e)
                     | Inr m' \<Rightarrow>
                         if int m' \<le> currentSupply
                         then (sent, Inr \<lparr>verdict_status = Closed, reason = Some MaxSupplyExceeded\<rparr>)
                         else (sent, Inr \<lparr>verdict_status = Open, reason = None\<rparr>)))
           | None \<Rightarrow> resolve \<lparr>verdict_status = Open, reason = None\<rparr>))"

subsection \<open>The earlier revision of the supply counter\<close>

text \<open>
  src/unnamed/part_000, lines 104-140: an earlier revision of \<open>getCurrentSupply\<close>. It
  fetches with \<open>one\<close>, takes the row as it is and selects \<open>collections.token_count\<close> without
  \<open>coalesce\<close>, so that \<open>bn\<close> is handed NULL when the figure is NULL.
\<close>

definition select_raw_token_count_of_collection :: "string \<Rightarrow> database \<Rightarrow> int option list" where
  "select_raw_token_count_of_collection collection_p db =
     map c_token_count (filter (\<lambda>r. c_id r = collection_p) (collections db))"

definition getCurrentSupply_part_000 ::
    "(string \<Rightarrow> buffer) \<Rightarrow> idb \<Rightarrow> CollectionMint \<Rightarrow> int promise" where
  "getCurrentSupply_part_000 toBuffer idb collectionMint =
     (case truthy_string (tokenId collectionMint) of
        Some t \<Rightarrow>
          then_promise
            (idb_one idb SumBalancesOfToken
               (select_token_count_of_token (toBuffer (contract collectionMint)) t))
            (\<lambda>token_count. token_count)
      | None \<Rightarrow>
          (case idb_one idb TokenCountOfCollection
                  (select_raw_token_count_of_collection (collection collectionMint)) of
             (sent, Inl e) \<Rightarrow> (sent, Inl e)
           | (sent, Inr None) \<Rightarrow> (sent, Inl InvalidBigNumber)
           | (sent, Inr (Some token_count)) \<Rightarrow> (sent, Inr token_count)))"

subsection \<open>Example inputs\<close>

text \<open>
  A byte encoding to stand for \<open>toBuffer\<close>, a store with two mint transfers, one deleted
  transfer and one secondary transfer, and a descriptor with every optional field absent.
\<close>

definition toBuffer_example :: "string \<Rightarrow> buffer" where
  "toBuffer_example s = map of_char s"

definition mint_example :: CollectionMint where
  "mint_example =
     \<lparr>collection = ''0xc0'', contract = ''0xc0'', tokenId = None, startTime = None,
      endTime = None, maxSupply = None, status = None\<rparr>"

definition transfer_example :: "string \<Rightarrow> int \<Rightarrow> string \<Rightarrow> int \<Rightarrow> nft_transfer_event" where
  "transfer_example token deleted sender n =
     \<lparr>te_address = toBuffer_example ''0xc0'', te_token_id = token, te_is_deleted = deleted,
      te_from = toBuffer_example sender, te_to = toBuffer_example ''0xa1'', te_amount = n\<rparr>"

definition store_example :: database where
  "store_example =
     \<lparr>nft_transfer_events =
        [transfer_example ''1'' 0 AddressZero 2,
         transfer_example ''2'' 0 AddressZero 3,
         transfer_example ''1'' 1 AddressZero 5,
         transfer_example ''1'' 0 ''0xb2'' 7],
      nft_balances =
        [\<lparr>nb_contract = toBuffer_example ''0xc0'', nb_token_id = ''1'', nb_amount = 4\<rparr>,
         \<lparr>nb_contract = toBuffer_example ''0xc0'', nb_token_id = ''1'', nb_amount = - 4\<rparr>,
         \<lparr>nb_contract = toBuffer_example ''0xc0'', nb_token_id = ''1'', nb_amount = 6\<rparr>,
         \<lparr>nb_contract = toBuffer_example ''0xc0'', nb_token_id = ''2'', nb_amount = 9\<rparr>],
      collections = [\<lparr>c_id = ''0xc0'', c_token_count = Some 100\<rparr>]\<rparr>"

section \<open>Decimal strings\<close>

lemma digit_val_char: "d < 10 \<Longrightarrow> digit_val (digit_char d) = Some d"
proof -
  assume "d < 10"
  then have "d \<in> {0, 1, 2, 3, 4, 5, 6, 7, 8, 9}" by auto
  then show ?thesis by (auto simp: digit_val_def digit_char_def)
qed

lemma parse_digits_snoc:
  "parse_digits acc (cs @ [c]) =
     (case parse_digits acc cs of
        None \<Rightarrow> None
      | Some m \<Rightarrow> (case digit_val c of None \<Rightarrow> None | Some d \<Rightarrow> Some (10 * m + d)))"
  by (induction cs arbitrary: acc) (auto split: option.splits)

lemma parse_toString: "parse_digits 0 (toString n) = Some n"
proof (induction n rule: toString.induct)
  case (1 n)
  show ?case
  proof (cases "n < 10")
    case True
    then show ?thesis by (simp add: toString.simps [of n] digit_val_char)
  next
    case False
    with 1 have "parse_digits 0 (toString (n div 10)) = Some (n div 10)" by simp
    with False show ?thesis
      by (simp add: toString.simps [of n] parse_digits_snoc digit_val_char)
  qed
qed

lemma toString_nonempty: "toString n \<noteq> []"
  by (simp add: toString.simps [of n])

lemma bn_toString: "bn (Str (toString n)) = Inr n"
  by (simp add: toString_nonempty parse_toString)

lemma toString_inj: "toString a = toString b \<longleftrightarrow> a = b"
proof
  assume "toString a = toString b"
  then have "parse_digits 0 (toString a) = parse_digits 0 (toString b)" by simp
  then show "a = b" by (simp add: parse_toString)
qed simp

lemma digit_char_val: "digit_val c = Some d \<Longrightarrow> digit_char d = c \<and> d < 10"
  by (auto simp: digit_val_def digit_char_def split: if_splits)

lemma parse_digits_mono: "parse_digits acc cs = Some n \<Longrightarrow> acc \<le> n"
proof (induction cs arbitrary: acc)
  case Nil
  then show ?case by simp
next
  case (Cons c cs)
  then obtain d where "digit_val c = Some d" and "parse_digits (10 * acc + d) cs = Some n"
    by (auto split: option.splits)
  with Cons.IH [of "10 * acc + d"] show ?case by simp
qed

lemma parse_digits_pos:
  assumes "parse_digits 0 (c # cs) = Some n" and "c \<noteq> CHR ''0''"
  shows "0 < n"
proof -
  from assms(1) obtain d where d: "digit_val c = Some d" and p: "parse_digits d cs = Some n"
    by (auto split: option.splits)
  from d assms(2) have "0 < d" by (auto simp: digit_val_def split: if_splits)
  with parse_digits_mono [OF p] show ?thesis by simp
qed

lemma toString_step: "0 < m \<Longrightarrow> d < 10 \<Longrightarrow> toString (10 * m + d) = toString m @ [digit_char d]"
  by (simp add: toString.simps [of "10 * m + d"])

lemma toString_parse:
  "s \<noteq> [] \<Longrightarrow> hd s \<noteq> CHR ''0'' \<or> s = ''0'' \<Longrightarrow> parse_digits 0 s = Some n \<Longrightarrow> toString n = s"
proof (induction s arbitrary: n rule: rev_induct)
  case Nil
  then show ?case by simp
next
  case (snoc c xs)
  from snoc.prems(3) obtain m d where m: "parse_digits 0 xs = Some m"
    and d: "digit_val c = Some d" and n: "n = 10 * m + d"
    by (auto simp: parse_digits_snoc split: option.splits)
  from d have c: "digit_char d = c" and d10: "d < 10" using digit_char_val by auto
  show ?case
  proof (cases xs)
    case Nil
    with m n d10 c show ?thesis by (simp add: toString.simps [of d])
  next
    case (Cons y ys)
    with snoc.prems(2) have y: "y \<noteq> CHR ''0''" by auto
    with m Cons have "0 < m" using parse_digits_pos by blast
    moreover from Cons y snoc.IH [OF _ _ m] have "toString m = xs" by simp
    ultimately show ?thesis using n d10 c by (simp add: toString_step)
  qed
qed

lemma sentinel_strings:
  "toString 0 = ''0''"
  "toString 2147483647 = ''2147483647''"
  "toString 4294967295 = ''4294967295''"
  "toString 18446744073709551615 = ''18446744073709551615''"
  "toString 340282366920938463463374607431768211455 = ''340282366920938463463374607431768211455''"
  "toString 115792089237316195423570985008687907853269984665640564039457584007913129639935 =
     ''115792089237316195423570985008687907853269984665640564039457584007913129639935''"
  by (rule toString_parse; simp add: digit_val_def)+

lemma toString_sentinel:
  "toString n \<in> set sentinels \<longleftrightarrow>
     n \<in> {0, 2147483647, 4294967295, 18446744073709551615,
          340282366920938463463374607431768211455, 2 ^ 256 - 1}"
proof -
  have "toString n \<in> set sentinels \<longleftrightarrow>
          toString n \<in> toString ` {0, 2147483647, 4294967295, 18446744073709551615,
             340282366920938463463374607431768211455,
             115792089237316195423570985008687907853269984665640564039457584007913129639935}"
    by (simp add: sentinels_def sentinel_strings)
  also have "\<dots> \<longleftrightarrow> n \<in> {0, 2147483647, 4294967295, 18446744073709551615,
             340282366920938463463374607431768211455,
             115792089237316195423570985008687907853269984665640564039457584007913129639935}"
    by (simp add: image_iff toString_inj del: insert_iff) (simp add: toString_inj)
  finally show ?thesis by simp
qed

section \<open>Sanitizers\<close>

lemma toSafeTimestamp_absent:
  "toSafeTimestamp value = Inr None \<longleftrightarrow>
     falsy value \<or> (\<exists>v n. value = Some v \<and> bn v = Inr n \<and> (n = 0 \<or> 9999999999 \<le> n))"
  by (auto simp: toSafeTimestamp_def toNumber_def falsy_def split: option.splits sum.splits)

lemma toSafeTimestamp_kept:
  "\<not> falsy value \<Longrightarrow> value = Some v \<Longrightarrow> bn v = Inr n \<Longrightarrow> n \<noteq> 0 \<Longrightarrow> n < 9999999999 \<Longrightarrow>
     toSafeTimestamp value = Inr (Some n)"
  by (simp add: toSafeTimestamp_def toNumber_def)

lemma toSafeNumber_absent:
  "toSafeNumber value = Inr None \<longleftrightarrow>
     falsy value \<or> (\<exists>v n. value = Some v \<and> bn v = Inr n \<and> toString n \<in> set sentinels)"
  by (auto simp: toSafeNumber_def falsy_def split: option.splits sum.splits)

lemma toSafeNumber_kept:
  "\<not> falsy value \<Longrightarrow> value = Some v \<Longrightarrow> bn v = Inr n \<Longrightarrow> toString n \<notin> set sentinels \<Longrightarrow>
     toSafeNumber value = Inr (Some (toString n))"
  by (simp add: toSafeNumber_def)

text \<open>
  C5. Sanitizer round trip. \<open>toSafeTimestamp\<close> returns absent exactly for a falsy input and
  for an input whose value is 0 or at least 9999999999, and returns the value of every
  other input unchanged. \<open>toSafeNumber\<close> returns absent exactly for a falsy input and for
  an input whose value is one of the six sentinels 0, 2147483647, 4294967295,
  18446744073709551615, 340282366920938463463374607431768211455 and \<open>2^256 - 1\<close>, and
  returns every other value as its decimal string, which \<open>bn\<close> reads back to the same value.
  An input is a string, a number or a big number; its value is what \<open>bn\<close> makes of it.
\<close>

theorem sanitizers_round_trip:
  "(toSafeTimestamp value = Inr None \<longleftrightarrow>
      falsy value \<or> (\<exists>v n. value = Some v \<and> bn v = Inr n \<and> (n = 0 \<or> 9999999999 \<le> n)))
   \<and> (\<not> falsy value \<and> value = Some v \<and> bn v = Inr n \<and> n \<noteq> 0 \<and> n < 9999999999
        \<longrightarrow> toSafeTimestamp value = Inr (Some n))
   \<and> (toSafeNumber value = Inr None \<longleftrightarrow>
        falsy value \<or> (\<exists>v n. value = Some v \<and> bn v = Inr n \<and>
           n \<in> {0, 2147483647, 4294967295, 18446744073709551615,
                340282366920938463463374607431768211455, 2 ^ 256 - 1}))
   \<and> (\<not> falsy value \<and> value = Some v \<and> bn v = Inr n \<and>
        n \<notin> {0, 2147483647, 4294967295, 18446744073709551615,
                340282366920938463463374607431768211455, 2 ^ 256 - 1}
        \<longrightarrow> toSafeNumber value = Inr (Some (toString n)) \<and> bn (Str (toString n)) = Inr n)"
  unfolding toString_sentinel [symmetric]
  using toSafeTimestamp_absent [of "value"] toSafeTimestamp_kept [of "value" v n]
    toSafeNumber_absent [of "value"] toSafeNumber_kept [of "value" v n] bn_toString [of n]
  by blast

theorem sanitizers_round_trip_witness:
  "\<not> falsy (Some (Str ''4294967294'')) \<and> bn (Str ''4294967294'') = Inr 4294967294
   \<and> toSafeNumber (Some (Str ''4294967294'')) = Inr (Some ''4294967294'')
   \<and> toSafeTimestamp (Some (Str ''4294967294'')) = Inr (Some 4294967294)"
proof -
  have h: "\<not> falsy (Some (Str ''4294967294''))" "bn (Str ''4294967294'') = Inr 4294967294"
    by (simp_all add: falsy_def digit_val_def)
  have s: "toString 4294967294 = ''4294967294''"
    by (rule toString_parse; simp add: digit_val_def)
  from h sanitizers_round_trip [of "Some (Str ''4294967294'')" "Str ''4294967294''" 4294967294]
  have "toSafeNumber (Some (Str ''4294967294'')) = Inr (Some (toString 4294967294))"
    and "toSafeTimestamp (Some (Str ''4294967294'')) = Inr (Some 4294967294)"
    by simp_all
  with h s show ?thesis by simp
qed

section \<open>The status resolver\<close>

lemmas example_defs = toBuffer_example_def mint_example_def transfer_example_def
  store_example_def AddressZero_def

lemmas counter_defs = getAmountMinted_def getCurrentSupply_def then_promise_def idb_one_def
  idb_oneOrNone_def truthy_string_def select_amount_minted_of_token_def
  select_amount_minted_of_contract_def select_token_count_of_token_def
  select_token_count_of_collection_def sql_sum_def coalesce_def

lemmas status_defs = getStatus_def resolve_def truthy_number_def Let_def

lemma truthy_number_rule:
  "(case truthy_number field of Some t \<Rightarrow> P t | None \<Rightarrow> False)
     \<longleftrightarrow> (\<exists>t. field = Some t \<and> t \<noteq> 0 \<and> P t)"
  by (auto simp: truthy_number_def split: option.splits)

lemma truthy_string_Some: "truthy_string field = Some s \<longleftrightarrow> field = Some s \<and> s \<noteq> []"
  by (auto simp: truthy_string_def split: option.splits)

lemma truthy_string_None: "truthy_string field = None \<longleftrightarrow> field = None \<or> field = Some []"
  by (auto simp: truthy_string_def split: option.splits)

lemma bn_Str_nonempty: "bn (Str s) = Inr m \<Longrightarrow> s \<noteq> []"
  by (auto split: if_splits)

text \<open>The guard chain of \<open>getStatus\<close>, one lemma for each way out.\<close>

lemma getStatus_override:
  "status cm = Some Closed \<Longrightarrow>
     getStatus tb idb now cm = ([], Inr \<lparr>verdict_status = Closed, reason = None\<rparr>)"
  by (simp add: getStatus_def resolve_def)

lemma getStatus_not_yet_started:
  assumes "status cm \<noteq> Some Closed" and "\<exists>t. startTime cm = Some t \<and> t \<noteq> 0 \<and> now \<le> t"
  shows "getStatus tb idb now cm
           = ([], Inr \<lparr>verdict_status = Closed, reason = Some NotYetStarted\<rparr>)"
proof -
  from assms(2) have "case truthy_number (startTime cm) of Some t \<Rightarrow> now \<le> t | None \<Rightarrow> False"
    unfolding truthy_number_rule .
  with assms(1) show ?thesis
    by (simp only: getStatus_def Let_def resolve_def if_True if_False)
qed

lemma getStatus_ended:
  assumes "status cm \<noteq> Some Closed"
    and "\<not> (\<exists>t. startTime cm = Some t \<and> t \<noteq> 0 \<and> now \<le> t)"
    and "\<exists>t. endTime cm = Some t \<and> t \<noteq> 0 \<and> t \<le> now"
  shows "getStatus tb idb now cm = ([], Inr \<lparr>verdict_status = Closed, reason = Some Ended\<rparr>)"
proof -
  from assms(2)
  have "\<not> (case truthy_number (startTime cm) of Some t \<Rightarrow> now \<le> t | None \<Rightarrow> False)"
    unfolding truthy_number_rule .
  moreover from assms(3)
  have "case truthy_number (endTime cm) of Some t \<Rightarrow> t \<le> now | None \<Rightarrow> False"
    unfolding truthy_number_rule .
  ultimately show ?thesis using assms(1)
    by (simp only: getStatus_def Let_def resolve_def if_True if_False)
qed

lemma getStatus_supply_check:
  assumes "status cm \<noteq> Some Closed"
    and "\<not> (\<exists>t. startTime cm = Some t \<and> t \<noteq> 0 \<and> now \<le> t)"
    and "\<not> (\<exists>t. endTime cm = Some t \<and> t \<noteq> 0 \<and> t \<le> now)"
  shows "getStatus tb idb now cm =
       (case truthy_string (maxSupply cm) of
          Some m \<Rightarrow>
            (case getCurrentSupply tb idb cm of
               (sent, Inl e) \<Rightarrow> (sent, Inl e)
             | (sent, Inr currentSupply) \<Rightarrow>
                 (case bn (Str m) of
                    Inl e \<Rightarrow> (sent, Inl e)
                  | Inr m' \<Rightarrow>
                      if int m' \<le> currentSupply
                      then (sent, Inr \<lparr>verdict_status = Closed, reason = Some MaxSupplyExceeded\<rparr>)
                      else (sent, Inr \<lparr>verdict_status = Open, reason = None\<rparr>)))
        | None \<Rightarrow> ([], Inr \<lparr>verdict_status = Open, reason = None\<rparr>))"
proof -
  from assms(2)
  have "\<not> (case truthy_number (startTime cm) of Some t \<Rightarrow> now \<le> t | None \<Rightarrow> False)"
    unfolding truthy_number_rule .
  moreover from assms(3)
  have "\<not> (case truthy_number (endTime cm) of Some t \<Rightarrow> t \<le> now | None \<Rightarrow> False)"
    unfolding truthy_number_rule .
  ultimately show ?thesis using assms(1)
    by (simp only: getStatus_def Let_def resolve_def if_True if_False)
qed

lemma getStatus_no_cap:
  "status cm \<noteq> Some Closed \<Longrightarrow> \<not> (\<exists>t. startTime cm = Some t \<and> t \<noteq> 0 \<and> now \<le> t) \<Longrightarrow>
   \<not> (\<exists>t. endTime cm = Some t \<and> t \<noteq> 0 \<and> t \<le> now) \<Longrightarrow>
   maxSupply cm = None \<or> maxSupply cm = Some [] \<Longrightarrow>
     getStatus tb idb now cm = ([], Inr \<lparr>verdict_status = Open, reason = None\<rparr>)"
  using truthy_string_None [of "maxSupply cm"] by (simp add: getStatus_supply_check)

lemma getStatus_cap:
  "status cm \<noteq> Some Closed \<Longrightarrow> \<not> (\<exists>t. startTime cm = Some t \<and> t \<noteq> 0 \<and> now \<le> t) \<Longrightarrow>
   \<not> (\<exists>t. endTime cm = Some t \<and> t \<noteq> 0 \<and> t \<le> now) \<Longrightarrow>
   maxSupply cm = Some s \<Longrightarrow> s \<noteq> [] \<Longrightarrow> getCurrentSupply tb idb cm = (sent, r) \<Longrightarrow>
     getStatus tb idb now cm =
       (case r of
          Inl e \<Rightarrow> (sent, Inl e)
        | Inr currentSupply \<Rightarrow>
            (case bn (Str s) of
               Inl e \<Rightarrow> (sent, Inl e)
             | Inr m' \<Rightarrow>
                 if int m' \<le> currentSupply
                 then (sent, Inr \<lparr>verdict_status = Closed, reason = Some MaxSupplyExceeded\<rparr>)
                 else (sent, Inr \<lparr>verdict_status = Open, reason = None\<rparr>)))"
  using truthy_string_Some [of "maxSupply cm" s]
  by (simp add: getStatus_supply_check del: bn.simps split: sum.splits)

lemma getCurrentSupply_sent: "fst (getCurrentSupply tb idb cm) \<noteq> []"
  by (simp add: getCurrentSupply_def then_promise_def idb_oneOrNone_def split: option.splits)


lemma getStatus_reason:
  assumes "getStatus tb idb now cm = (sent, Inr v)"
  shows "reason v \<noteq> None \<longleftrightarrow> verdict_status v = Closed \<and> status cm \<noteq> Some Closed"
proof (cases "status cm = Some Closed")
  case True
  with assms getStatus_override [of cm tb idb now] show ?thesis by auto
next
  case open_override: False
  show ?thesis
  proof (cases "\<exists>t. startTime cm = Some t \<and> t \<noteq> 0 \<and> now \<le> t")
    case True
    with assms open_override getStatus_not_yet_started [of cm now tb idb] show ?thesis by auto
  next
    case started: False
    show ?thesis
    proof (cases "\<exists>t. endTime cm = Some t \<and> t \<noteq> 0 \<and> t \<le> now")
      case True
      with assms open_override started getStatus_ended [of cm now tb idb] show ?thesis by auto
    next
      case False
      with assms open_override started getStatus_supply_check [of cm now tb idb] show ?thesis
        by (auto simp del: bn.simps split: option.splits sum.splits prod.splits if_splits)
    qed
  qed
qed

text \<open>
  C1. A descriptor whose status is the override \<open>Closed\<close> resolves to \<open>Closed\<close> with no
  reason, whatever its \<open>startTime\<close>, \<open>endTime\<close> and \<open>maxSupply\<close> are, and no statement is
  sent to the store. In every verdict that \<open>getStatus\<close> fulfils with, a reason is present
  exactly when the status is \<open>Closed\<close> and the descriptor did not carry the override.
\<close>

theorem getStatus_closed_override:
  "(status cm = Some Closed \<longrightarrow>
      getStatus tb idb now (cm\<lparr>startTime := st, endTime := et, maxSupply := ms\<rparr>)
        = ([], Inr \<lparr>verdict_status = Closed, reason = None\<rparr>))
   \<and> (getStatus tb idb now cm = (sent, Inr v) \<longrightarrow>
        (reason v \<noteq> None \<longleftrightarrow> verdict_status v = Closed \<and> status cm \<noteq> Some Closed))"
  using getStatus_override [of "cm\<lparr>startTime := st, endTime := et, maxSupply := ms\<rparr>" tb idb now]
    getStatus_reason [of tb idb now cm sent v]
  by simp

theorem getStatus_closed_override_witness:
  "status (mint_example\<lparr>status := Some Closed\<rparr>) = Some Closed
   \<and> getStatus toBuffer_example (Inr store_example) 1700000000
        (mint_example\<lparr>status := Some Closed, startTime := Some 1800000000,
           endTime := Some 1600000000, maxSupply := Some ''1''\<rparr>)
       = ([], Inr \<lparr>verdict_status = Closed, reason = None\<rparr>)
   \<and> getStatus toBuffer_example (Inr store_example) 1700000000
        (mint_example\<lparr>endTime := Some 1600000000\<rparr>)
       = ([], Inr \<lparr>verdict_status = Closed, reason = Some Ended\<rparr>)
   \<and> status (mint_example\<lparr>endTime := Some 1600000000\<rparr>) \<noteq> Some Closed"
proof -
  have a: "status (mint_example\<lparr>status := Some Closed\<rparr>) = Some Closed"
    by (simp add: mint_example_def)
  have c: "getStatus toBuffer_example (Inr store_example) 1700000000
        (mint_example\<lparr>endTime := Some 1600000000\<rparr>)
       = ([], Inr \<lparr>verdict_status = Closed, reason = Some Ended\<rparr>)"
    by (simp add: status_defs mint_example_def)
  from a getStatus_closed_override [where cm = "mint_example\<lparr>status := Some Closed\<rparr>"
      and tb = toBuffer_example and idb = "Inr store_example" and now = 1700000000
      and st = "Some 1800000000" and et = "Some 1600000000" and ms = "Some ''1''"]
  have b: "getStatus toBuffer_example (Inr store_example) 1700000000
        (mint_example\<lparr>status := Some Closed, startTime := Some 1800000000,
           endTime := Some 1600000000, maxSupply := Some ''1''\<rparr>)
       = ([], Inr \<lparr>verdict_status = Closed, reason = None\<rparr>)"
    by simp
  from c getStatus_closed_override [where cm = "mint_example\<lparr>endTime := Some 1600000000\<rparr>"
      and tb = toBuffer_example and idb = "Inr store_example" and now = 1700000000
      and sent = "[]" and v = "\<lparr>verdict_status = Closed, reason = Some Ended\<rparr>"]
  have d: "status (mint_example\<lparr>endTime := Some 1600000000\<rparr>) \<noteq> Some Closed"
    by simp
  from a b c d show ?thesis by blast
qed

text \<open>
  C2, amended. For a descriptor without the override: when \<open>startTime\<close> is present, is not 0
  and \<open>now \<le> startTime\<close>, the verdict is \<open>Closed\<close> with reason not-yet-started; otherwise,
  when \<open>endTime\<close> is present, is not 0 and \<open>now \<ge> endTime\<close>, the verdict is \<open>Closed\<close> with
  reason ended. A time of 0 is falsy and is read as an absent field.
\<close>

theorem getStatus_timing:
  assumes "status cm \<noteq> Some Closed"
  shows "(startTime cm = Some t \<and> t \<noteq> 0 \<and> now \<le> t \<longrightarrow>
            getStatus tb idb now cm
              = ([], Inr \<lparr>verdict_status = Closed, reason = Some NotYetStarted\<rparr>))
       \<and> (\<not> (\<exists>t. startTime cm = Some t \<and> t \<noteq> 0 \<and> now \<le> t)
            \<and> endTime cm = Some t' \<and> t' \<noteq> 0 \<and> now \<ge> t' \<longrightarrow>
            getStatus tb idb now cm
              = ([], Inr \<lparr>verdict_status = Closed, reason = Some Ended\<rparr>))"
  using assms getStatus_not_yet_started [of cm now tb idb] getStatus_ended [of cm now tb idb]
  by blast

theorem getStatus_timing_witness:
  "status (mint_example\<lparr>startTime := Some 1800000000\<rparr>) \<noteq> Some Closed
   \<and> startTime (mint_example\<lparr>startTime := Some 1800000000\<rparr>) = Some 1800000000
   \<and> (1700000000 :: int) \<le> 1800000000
   \<and> getStatus toBuffer_example (Inr store_example) 1700000000
        (mint_example\<lparr>startTime := Some 1800000000\<rparr>)
       = ([], Inr \<lparr>verdict_status = Closed, reason = Some NotYetStarted\<rparr>)
   \<and> endTime (mint_example\<lparr>startTime := Some 1500000000, endTime := Some 1600000000\<rparr>)
       = Some 1600000000
   \<and> getStatus toBuffer_example (Inr store_example) 1700000000
        (mint_example\<lparr>startTime := Some 1500000000, endTime := Some 1600000000\<rparr>)
       = ([], Inr \<lparr>verdict_status = Closed, reason = Some Ended\<rparr>)"
proof -
  have a: "status (mint_example\<lparr>startTime := Some 1800000000\<rparr>) \<noteq> Some Closed"
    "startTime (mint_example\<lparr>startTime := Some 1800000000\<rparr>) = Some 1800000000"
    by (simp_all add: mint_example_def)
  have b: "status (mint_example\<lparr>startTime := Some 1500000000, endTime := Some 1600000000\<rparr>)
             \<noteq> Some Closed"
    "\<not> (\<exists>t. startTime (mint_example\<lparr>startTime := Some 1500000000, endTime := Some 1600000000\<rparr>)
             = Some t \<and> t \<noteq> 0 \<and> 1700000000 \<le> t)"
    "endTime (mint_example\<lparr>startTime := Some 1500000000, endTime := Some 1600000000\<rparr>)
       = Some 1600000000"
    by (simp_all add: mint_example_def)
  from a getStatus_timing [OF a(1), where t = 1800000000 and now = 1700000000
      and tb = toBuffer_example and idb = "Inr store_example"]
  have c: "getStatus toBuffer_example (Inr store_example) 1700000000
        (mint_example\<lparr>startTime := Some 1800000000\<rparr>)
       = ([], Inr \<lparr>verdict_status = Closed, reason = Some NotYetStarted\<rparr>)"
    by simp
  from b getStatus_timing [OF b(1), where t' = 1600000000 and now = 1700000000
      and tb = toBuffer_example and idb = "Inr store_example"]
  have d: "getStatus toBuffer_example (Inr store_example) 1700000000
        (mint_example\<lparr>startTime := Some 1500000000, endTime := Some 1600000000\<rparr>)
       = ([], Inr \<lparr>verdict_status = Closed, reason = Some Ended\<rparr>)"
    by simp
  from a b c d show ?thesis by simp
qed

text \<open>
  C2 as stated, with a present \<open>endTime\<close> and \<open>now \<ge> endTime\<close> alone, fails at \<open>endTime = 0\<close>:
  no override, no start time, \<open>1700000000 \<ge> 0\<close>, and the verdict is \<open>Open\<close>.
\<close>

theorem getStatus_ended_counterexample:
  "status (mint_example\<lparr>endTime := Some 0\<rparr>) \<noteq> Some Closed
   \<and> startTime (mint_example\<lparr>endTime := Some 0\<rparr>) = None
   \<and> endTime (mint_example\<lparr>endTime := Some 0\<rparr>) = Some 0
   \<and> (1700000000 :: int) \<ge> 0
   \<and> getStatus toBuffer_example (Inr store_example) 1700000000 (mint_example\<lparr>endTime := Some 0\<rparr>)
       = ([], Inr \<lparr>verdict_status = Open, reason = None\<rparr>)
   \<and> getStatus toBuffer_example (Inr store_example) 1700000000 (mint_example\<lparr>endTime := Some 0\<rparr>)
       \<noteq> ([], Inr \<lparr>verdict_status = Closed, reason = Some Ended\<rparr>)"
  by (simp add: status_defs truthy_string_def mint_example_def)

text \<open>
  C3. For a descriptor without the override and with neither timing rule firing: when
  \<open>maxSupply\<close> is the decimal string of \<open>m\<close> and \<open>m\<close> is at most the current supply, equality
  included, the verdict is \<open>Closed\<close> with reason max-supply-exceeded; when \<open>m\<close> is above the
  current supply, or \<open>maxSupply\<close> is absent, the verdict is \<open>Open\<close>. The comparison is the
  order of the integers, at any size: the witness below compares \<open>2^256 - 2\<close> with
  \<open>2^256 - 3\<close>.
\<close>

theorem getStatus_max_supply:
  assumes "status cm \<noteq> Some Closed"
    and "\<not> (\<exists>t. startTime cm = Some t \<and> t \<noteq> 0 \<and> now \<le> t)"
    and "\<not> (\<exists>t. endTime cm = Some t \<and> t \<noteq> 0 \<and> now \<ge> t)"
  shows "(maxSupply cm = Some s \<and> bn (Str s) = Inr m
            \<and> getCurrentSupply tb idb cm = (sent, Inr currentSupply)
            \<and> int m \<le> currentSupply \<longrightarrow>
            getStatus tb idb now cm
              = (sent, Inr \<lparr>verdict_status = Closed, reason = Some MaxSupplyExceeded\<rparr>))
       \<and> (maxSupply cm = Some s \<and> bn (Str s) = Inr m
            \<and> getCurrentSupply tb idb cm = (sent, Inr currentSupply)
            \<and> int m > currentSupply \<longrightarrow>
            getStatus tb idb now cm = (sent, Inr \<lparr>verdict_status = Open, reason = None\<rparr>))
       \<and> (maxSupply cm = None \<longrightarrow>
            getStatus tb idb now cm = ([], Inr \<lparr>verdict_status = Open, reason = None\<rparr>))"
proof (intro conjI impI)
  assume "maxSupply cm = None"
  with assms show "getStatus tb idb now cm = ([], Inr \<lparr>verdict_status = Open, reason = None\<rparr>)"
    by (simp add: getStatus_no_cap)
next
  assume h: "maxSupply cm = Some s \<and> bn (Str s) = Inr m
    \<and> getCurrentSupply tb idb cm = (sent, Inr currentSupply) \<and> int m \<le> currentSupply"
  then have "s \<noteq> []" using bn_Str_nonempty by blast
  with h getStatus_cap [OF assms, of s tb idb sent "Inr currentSupply"]
  show "getStatus tb idb now cm
          = (sent, Inr \<lparr>verdict_status = Closed, reason = Some MaxSupplyExceeded\<rparr>)"
    by (simp del: bn.simps)
next
  assume h: "maxSupply cm = Some s \<and> bn (Str s) = Inr m
    \<and> getCurrentSupply tb idb cm = (sent, Inr currentSupply) \<and> int m > currentSupply"
  then have "s \<noteq> []" using bn_Str_nonempty by blast
  with h getStatus_cap [OF assms, of s tb idb sent "Inr currentSupply"]
  show "getStatus tb idb now cm = (sent, Inr \<lparr>verdict_status = Open, reason = None\<rparr>)"
    by (simp del: bn.simps)
qed

theorem getStatus_max_supply_witness:
  "getStatus toBuffer_example (Inr store_example) 1700000000
      (mint_example\<lparr>maxSupply := Some ''100''\<rparr>)
     = ([TokenCountOfCollection],
        Inr \<lparr>verdict_status = Closed, reason = Some MaxSupplyExceeded\<rparr>)
   \<and> getStatus toBuffer_example
        (Inr (store_example\<lparr>collections :=
           [\<lparr>c_id = ''0xc0'', c_token_count = Some
              115792089237316195423570985008687907853269984665640564039457584007913129639933\<rparr>]\<rparr>))
        1700000000
        (mint_example\<lparr>maxSupply := Some
           ''115792089237316195423570985008687907853269984665640564039457584007913129639934''\<rparr>)
     = ([TokenCountOfCollection], Inr \<lparr>verdict_status = Open, reason = None\<rparr>)
   \<and> getStatus toBuffer_example (Inr store_example) 1700000000 mint_example
     = ([], Inr \<lparr>verdict_status = Open, reason = None\<rparr>)"
proof -
  let ?big = "store_example\<lparr>collections :=
           [\<lparr>c_id = ''0xc0'', c_token_count = Some
              115792089237316195423570985008687907853269984665640564039457584007913129639933\<rparr>]\<rparr>"
  let ?cap = "''115792089237316195423570985008687907853269984665640564039457584007913129639934''"
  have open_a: "status (mint_example\<lparr>maxSupply := Some ''100''\<rparr>) \<noteq> Some Closed"
    "\<not> (\<exists>t. startTime (mint_example\<lparr>maxSupply := Some ''100''\<rparr>) = Some t \<and> t \<noteq> 0
          \<and> 1700000000 \<le> t)"
    "\<not> (\<exists>t. endTime (mint_example\<lparr>maxSupply := Some ''100''\<rparr>) = Some t \<and> t \<noteq> 0
          \<and> 1700000000 \<ge> t)"
    by (simp_all add: mint_example_def)
  have open_b: "status (mint_example\<lparr>maxSupply := Some ?cap\<rparr>) \<noteq> Some Closed"
    "\<not> (\<exists>t. startTime (mint_example\<lparr>maxSupply := Some ?cap\<rparr>) = Some t \<and> t \<noteq> 0
          \<and> 1700000000 \<le> t)"
    "\<not> (\<exists>t. endTime (mint_example\<lparr>maxSupply := Some ?cap\<rparr>) = Some t \<and> t \<noteq> 0
          \<and> 1700000000 \<ge> t)"
    by (simp_all add: mint_example_def)
  have open_c: "status mint_example \<noteq> Some Closed"
    "\<not> (\<exists>t. startTime mint_example = Some t \<and> t \<noteq> 0 \<and> 1700000000 \<le> t)"
    "\<not> (\<exists>t. endTime mint_example = Some t \<and> t \<noteq> 0 \<and> 1700000000 \<ge> t)"
    "maxSupply mint_example = None"
    by (simp_all add: mint_example_def)
  have supply_a: "getCurrentSupply toBuffer_example (Inr store_example)
      (mint_example\<lparr>maxSupply := Some ''100''\<rparr>) = ([TokenCountOfCollection], Inr 100)"
    by (simp add: counter_defs example_defs)
  have supply_b: "getCurrentSupply toBuffer_example (Inr ?big)
      (mint_example\<lparr>maxSupply := Some ?cap\<rparr>)
      = ([TokenCountOfCollection],
         Inr 115792089237316195423570985008687907853269984665640564039457584007913129639933)"
    by (simp add: counter_defs example_defs)
  have bn_a: "bn (Str ''100'') = Inr 100" by (simp add: digit_val_def)
  have bn_b: "bn (Str ?cap)
      = Inr 115792089237316195423570985008687907853269984665640564039457584007913129639934"
    by (simp add: digit_val_def)
  from getStatus_max_supply [OF open_a, where s = "''100''" and m = 100
      and tb = toBuffer_example and idb = "Inr store_example"
      and sent = "[TokenCountOfCollection]" and currentSupply = 100] supply_a bn_a
  have a: "getStatus toBuffer_example (Inr store_example) 1700000000
      (mint_example\<lparr>maxSupply := Some ''100''\<rparr>)
     = ([TokenCountOfCollection],
        Inr \<lparr>verdict_status = Closed, reason = Some MaxSupplyExceeded\<rparr>)"
    by (simp del: bn.simps)
  from getStatus_max_supply [OF open_b, where s = ?cap
      and m = 115792089237316195423570985008687907853269984665640564039457584007913129639934
      and tb = toBuffer_example and idb = "Inr ?big"
      and sent = "[TokenCountOfCollection]"
      and currentSupply =
        115792089237316195423570985008687907853269984665640564039457584007913129639933]
    supply_b bn_b
  have b: "getStatus toBuffer_example (Inr ?big) 1700000000
      (mint_example\<lparr>maxSupply := Some ?cap\<rparr>)
     = ([TokenCountOfCollection], Inr \<lparr>verdict_status = Open, reason = None\<rparr>)"
    by (simp del: bn.simps)
  from getStatus_max_supply [OF open_c(1-3), where tb = toBuffer_example
      and idb = "Inr store_example"] open_c(4)
  have c: "getStatus toBuffer_example (Inr store_example) 1700000000 mint_example
     = ([], Inr \<lparr>verdict_status = Open, reason = None\<rparr>)"
    by simp
  from a b c show ?thesis by simp
qed

text \<open>
  C8. For a descriptor that reaches the supply check (no override, neither timing rule
  fires, \<open>maxSupply\<close> truthy): when \<open>getCurrentSupply\<close> rejects with an error, \<open>getStatus\<close>
  rejects with the same error, after the same statement, and fulfils with no verdict.
\<close>

theorem getStatus_supply_failure:
  assumes "status cm \<noteq> Some Closed"
    and "\<not> (\<exists>t. startTime cm = Some t \<and> t \<noteq> 0 \<and> now \<le> t)"
    and "\<not> (\<exists>t. endTime cm = Some t \<and> t \<noteq> 0 \<and> now \<ge> t)"
    and "maxSupply cm = Some s" and "s \<noteq> []"
    and "getCurrentSupply tb idb cm = (sent, Inl e)"
  shows "getStatus tb idb now cm = (sent, Inl e)
         \<and> (\<forall>v. snd (getStatus tb idb now cm) \<noteq> Inr v)"
  using getStatus_cap [OF assms] by simp


theorem getStatus_supply_failure_witness:
  "getCurrentSupply toBuffer_example (Inl DataUnavailable)
      (mint_example\<lparr>maxSupply := Some ''100''\<rparr>)
     = ([TokenCountOfCollection], Inl DataUnavailable)
   \<and> getStatus toBuffer_example (Inl DataUnavailable) 1700000000
        (mint_example\<lparr>maxSupply := Some ''100''\<rparr>)
     = ([TokenCountOfCollection], Inl DataUnavailable)"
proof -
  have h: "status (mint_example\<lparr>maxSupply := Some ''100''\<rparr>) \<noteq> Some Closed"
    "\<not> (\<exists>t. startTime (mint_example\<lparr>maxSupply := Some ''100''\<rparr>) = Some t \<and> t \<noteq> 0
          \<and> 1700000000 \<le> t)"
    "\<not> (\<exists>t. endTime (mint_example\<lparr>maxSupply := Some ''100''\<rparr>) = Some t \<and> t \<noteq> 0
          \<and> 1700000000 \<ge> t)"
    "maxSupply (mint_example\<lparr>maxSupply := Some ''100''\<rparr>) = Some ''100''"
    "''100'' \<noteq> []"
    by (simp_all add: mint_example_def)
  have f: "getCurrentSupply toBuffer_example (Inl DataUnavailable)
      (mint_example\<lparr>maxSupply := Some ''100''\<rparr>)
     = ([TokenCountOfCollection], Inl DataUnavailable)"
    by (simp add: counter_defs example_defs)
  from getStatus_supply_failure [OF h f] f show ?thesis by simp
qed

lemma getStatus_sent:
  "fst (getStatus tb idb now cm) = [] \<or>
   fst (getStatus tb idb now cm) = fst (getCurrentSupply tb idb cm)"
proof (cases "status cm \<noteq> Some Closed
    \<and> \<not> (\<exists>t. startTime cm = Some t \<and> t \<noteq> 0 \<and> now \<le> t)
    \<and> \<not> (\<exists>t. endTime cm = Some t \<and> t \<noteq> 0 \<and> t \<le> now)")
  case True
  then show ?thesis
    by (simp add: getStatus_supply_check del: bn.simps
          split: option.splits sum.splits prod.splits)
next
  case False
  then show ?thesis
    using getStatus_override [of cm tb idb now] getStatus_not_yet_started [of cm now tb idb]
      getStatus_ended [of cm now tb idb]
    by (cases "status cm = Some Closed";
        cases "\<exists>t. startTime cm = Some t \<and> t \<noteq> 0 \<and> now \<le> t") auto
qed

lemma getStatus_queries:
  "fst (getStatus tb idb now cm) \<noteq> [] \<longleftrightarrow>
     status cm \<noteq> Some Closed
     \<and> \<not> (\<exists>t. startTime cm = Some t \<and> t \<noteq> 0 \<and> now \<le> t)
     \<and> \<not> (\<exists>t. endTime cm = Some t \<and> t \<noteq> 0 \<and> t \<le> now)
     \<and> (\<exists>s. maxSupply cm = Some s \<and> s \<noteq> [])"
proof (cases "status cm \<noteq> Some Closed
    \<and> \<not> (\<exists>t. startTime cm = Some t \<and> t \<noteq> 0 \<and> now \<le> t)
    \<and> \<not> (\<exists>t. endTime cm = Some t \<and> t \<noteq> 0 \<and> t \<le> now)")
  case True
  show ?thesis
  proof (cases "\<exists>s. maxSupply cm = Some s \<and> s \<noteq> []")
    case capped: True
    then obtain s where s: "maxSupply cm = Some s" "s \<noteq> []" by blast
    obtain q r where qr: "getCurrentSupply tb idb cm = (q, r)"
      by (cases "getCurrentSupply tb idb cm")
    with getCurrentSupply_sent [of tb idb cm] have "q \<noteq> []" by simp
    with True capped s qr show ?thesis
      using getStatus_cap [of cm now s tb idb q r]
      by (auto simp del: bn.simps split: sum.splits)
  next
    case False
    then have "maxSupply cm = None \<or> maxSupply cm = Some []" by (cases "maxSupply cm") auto
    with True False show ?thesis by (simp add: getStatus_no_cap)
  qed
next
  case False
  then show ?thesis
    using getStatus_override [of cm tb idb now] getStatus_not_yet_started [of cm now tb idb]
      getStatus_ended [of cm now tb idb]
    by (cases "status cm = Some Closed";
        cases "\<exists>t. startTime cm = Some t \<and> t \<noteq> 0 \<and> now \<le> t") auto
qed

text \<open>
  C4. The guards are tried in the order override, not-yet-started, ended, maximum supply.
  The override wins whatever else holds; without it a start time in the future wins over
  the end time and the supply; without both an end time in the past wins over the supply.
  In these three cases nothing is sent to the store. A statement is sent exactly when the
  override is unset, both timing rules pass and \<open>maxSupply\<close> is truthy, and then it is the
  statement of \<open>getCurrentSupply\<close>, which always sends one.
\<close>

theorem getStatus_guard_order:
  "(status cm = Some Closed \<longrightarrow>
      getStatus tb idb now cm = ([], Inr \<lparr>verdict_status = Closed, reason = None\<rparr>))
   \<and> (status cm \<noteq> Some Closed
        \<and> (\<exists>t. startTime cm = Some t \<and> t \<noteq> 0 \<and> now \<le> t) \<longrightarrow>
      getStatus tb idb now cm
        = ([], Inr \<lparr>verdict_status = Closed, reason = Some NotYetStarted\<rparr>))
   \<and> (status cm \<noteq> Some Closed
        \<and> \<not> (\<exists>t. startTime cm = Some t \<and> t \<noteq> 0 \<and> now \<le> t)
        \<and> (\<exists>t. endTime cm = Some t \<and> t \<noteq> 0 \<and> t \<le> now) \<longrightarrow>
      getStatus tb idb now cm = ([], Inr \<lparr>verdict_status = Closed, reason = Some Ended\<rparr>))
   \<and> (fst (getStatus tb idb now cm) \<noteq> [] \<longleftrightarrow>
        status cm \<noteq> Some Closed
        \<and> \<not> (\<exists>t. startTime cm = Some t \<and> t \<noteq> 0 \<and> now \<le> t)
        \<and> \<not> (\<exists>t. endTime cm = Some t \<and> t \<noteq> 0 \<and> t \<le> now)
        \<and> (\<exists>s. maxSupply cm = Some s \<and> s \<noteq> []))
   \<and> (fst (getStatus tb idb now cm) = [] \<or>
        fst (getStatus tb idb now cm) = fst (getCurrentSupply tb idb cm))
   \<and> fst (getCurrentSupply tb idb cm) \<noteq> []"
  using getStatus_override [of cm tb idb now] getStatus_not_yet_started [of cm now tb idb]
    getStatus_ended [of cm now tb idb] getStatus_queries [of tb idb now cm]
    getStatus_sent [of tb idb now cm] getCurrentSupply_sent [of tb idb cm]
  by blast

theorem getStatus_guard_order_witness:
  "getStatus toBuffer_example (Inl DataUnavailable) 1700000000
      (mint_example\<lparr>startTime := Some 1800000000, endTime := Some 1600000000,
         maxSupply := Some ''1''\<rparr>)
     = ([], Inr \<lparr>verdict_status = Closed, reason = Some NotYetStarted\<rparr>)
   \<and> getStatus toBuffer_example (Inl DataUnavailable) 1700000000
        (mint_example\<lparr>endTime := Some 1600000000, maxSupply := Some ''1''\<rparr>)
     = ([], Inr \<lparr>verdict_status = Closed, reason = Some Ended\<rparr>)
   \<and> getStatus toBuffer_example (Inl DataUnavailable) 1700000000
        (mint_example\<lparr>status := Some Closed, startTime := Some 1800000000,
           endTime := Some 1600000000, maxSupply := Some ''1''\<rparr>)
     = ([], Inr \<lparr>verdict_status = Closed, reason = None\<rparr>)
   \<and> fst (getStatus toBuffer_example (Inr store_example) 1700000000
        (mint_example\<lparr>maxSupply := Some ''1''\<rparr>)) \<noteq> []"
proof -
  let ?a = "mint_example\<lparr>startTime := Some 1800000000, endTime := Some 1600000000,
         maxSupply := Some ''1''\<rparr>"
  let ?b = "mint_example\<lparr>endTime := Some 1600000000, maxSupply := Some ''1''\<rparr>"
  let ?c = "mint_example\<lparr>status := Some Closed, startTime := Some 1800000000,
           endTime := Some 1600000000, maxSupply := Some ''1''\<rparr>"
  let ?d = "mint_example\<lparr>maxSupply := Some ''1''\<rparr>"
  have ha: "status ?a \<noteq> Some Closed \<and> (\<exists>t. startTime ?a = Some t \<and> t \<noteq> 0 \<and> 1700000000 \<le> t)"
    by (simp add: mint_example_def)
  have hb: "status ?b \<noteq> Some Closed
      \<and> \<not> (\<exists>t. startTime ?b = Some t \<and> t \<noteq> 0 \<and> 1700000000 \<le> t)
      \<and> (\<exists>t. endTime ?b = Some t \<and> t \<noteq> 0 \<and> t \<le> 1700000000)"
    by (simp add: mint_example_def)
  have hc: "status ?c = Some Closed" by (simp add: mint_example_def)
  have hd: "status ?d \<noteq> Some Closed
      \<and> \<not> (\<exists>t. startTime ?d = Some t \<and> t \<noteq> 0 \<and> 1700000000 \<le> t)
      \<and> \<not> (\<exists>t. endTime ?d = Some t \<and> t \<noteq> 0 \<and> t \<le> 1700000000)
      \<and> (\<exists>s. maxSupply ?d = Some s \<and> s \<noteq> [])"
    by (simp add: mint_example_def)
  from ha getStatus_guard_order [where cm = ?a and tb = toBuffer_example
      and idb = "Inl DataUnavailable" and now = 1700000000]
  have a: "getStatus toBuffer_example (Inl DataUnavailable) 1700000000 ?a
     = ([], Inr \<lparr>verdict_status = Closed, reason = Some NotYetStarted\<rparr>)"
    by blast
  from hb getStatus_guard_order [where cm = ?b and tb = toBuffer_example
      and idb = "Inl DataUnavailable" and now = 1700000000]
  have b: "getStatus toBuffer_example (Inl DataUnavailable) 1700000000 ?b
     = ([], Inr \<lparr>verdict_status = Closed, reason = Some Ended\<rparr>)"
    by blast
  from hc getStatus_guard_order [where cm = ?c and tb = toBuffer_example
      and idb = "Inl DataUnavailable" and now = 1700000000]
  have c: "getStatus toBuffer_example (Inl DataUnavailable) 1700000000 ?c
     = ([], Inr \<lparr>verdict_status = Closed, reason = None\<rparr>)"
    by blast
  from hd getStatus_guard_order [where cm = ?d and tb = toBuffer_example
      and idb = "Inr store_example" and now = 1700000000]
  have d: "fst (getStatus toBuffer_example (Inr store_example) 1700000000 ?d) \<noteq> []"
    by blast
  from a b c d show ?thesis by blast
qed

lemma getCurrentSupply_times:
  "getCurrentSupply tb idb (cm\<lparr>endTime := et\<rparr>) = getCurrentSupply tb idb cm"
  "getCurrentSupply tb idb (cm\<lparr>startTime := st\<rparr>) = getCurrentSupply tb idb cm"
  by (simp_all add: getCurrentSupply_def split: option.splits)

lemma getStatus_endTime_zero:
  "endTime cm = Some 0 \<Longrightarrow> getStatus tb idb now cm = getStatus tb idb now (cm\<lparr>endTime := None\<rparr>)"
  unfolding getStatus_def getCurrentSupply_times by (simp add: Let_def truthy_number_def)

lemma getStatus_startTime_zero:
  "startTime cm = Some 0 \<Longrightarrow>
     getStatus tb idb now cm = getStatus tb idb now (cm\<lparr>startTime := None\<rparr>)"
  unfolding getStatus_def getCurrentSupply_times by (simp add: Let_def truthy_number_def)

lemma getStatus_Ended_only:
  assumes "snd (getStatus tb idb now cm) = Inr \<lparr>verdict_status = Closed, reason = Some Ended\<rparr>"
  shows "\<exists>t. endTime cm = Some t \<and> t \<noteq> 0 \<and> t \<le> now"
proof (rule ccontr)
  assume no: "\<not> (\<exists>t. endTime cm = Some t \<and> t \<noteq> 0 \<and> t \<le> now)"
  show False
  proof (cases "status cm = Some Closed")
    case True
    with assms show False by (simp add: getStatus_override)
  next
    case ov: False
    show False
    proof (cases "\<exists>t. startTime cm = Some t \<and> t \<noteq> 0 \<and> now \<le> t")
      case True
      with ov assms show False by (simp add: getStatus_not_yet_started)
    next
      case False
      with ov no assms show False
        by (auto simp: getStatus_supply_check simp del: bn.simps
              split: option.splits sum.splits prod.splits if_splits)
    qed
  qed
qed

lemma getStatus_NotYetStarted_only:
  assumes "snd (getStatus tb idb now cm)
             = Inr \<lparr>verdict_status = Closed, reason = Some NotYetStarted\<rparr>"
  shows "\<exists>t. startTime cm = Some t \<and> t \<noteq> 0 \<and> now \<le> t"
proof (rule ccontr)
  assume no: "\<not> (\<exists>t. startTime cm = Some t \<and> t \<noteq> 0 \<and> now \<le> t)"
  show False
  proof (cases "status cm = Some Closed")
    case True
    with assms show False by (simp add: getStatus_override)
  next
    case ov: False
    show False
    proof (cases "\<exists>t. endTime cm = Some t \<and> t \<noteq> 0 \<and> t \<le> now")
      case True
      with ov no assms show False by (simp add: getStatus_ended)
    next
      case False
      with ov no assms show False
        by (auto simp: getStatus_supply_check simp del: bn.simps
              split: option.splits sum.splits prod.splits if_splits)
    qed
  qed
qed

text \<open>
  C9. An \<open>endTime\<close> of 0 is read as an absent \<open>endTime\<close> and never gives the reason ended;
  a \<open>startTime\<close> of 0 is read as an absent \<open>startTime\<close> and never gives the reason
  not-yet-started. With \<open>endTime = 0\<close> and no other closing condition (no override, the
  start rule does not fire, \<open>maxSupply\<close> absent or above the current supply) the verdict is
  \<open>Open\<close>.
\<close>

theorem getStatus_zero_time:
  "(endTime cm = Some 0 \<longrightarrow>
      getStatus tb idb now cm = getStatus tb idb now (cm\<lparr>endTime := None\<rparr>)
      \<and> snd (getStatus tb idb now cm) \<noteq> Inr \<lparr>verdict_status = Closed, reason = Some Ended\<rparr>)
   \<and> (startTime cm = Some 0 \<longrightarrow>
      getStatus tb idb now cm = getStatus tb idb now (cm\<lparr>startTime := None\<rparr>)
      \<and> snd (getStatus tb idb now cm)
          \<noteq> Inr \<lparr>verdict_status = Closed, reason = Some NotYetStarted\<rparr>)
   \<and> (endTime cm = Some 0 \<and> status cm \<noteq> Some Closed
        \<and> \<not> (\<exists>t. startTime cm = Some t \<and> t \<noteq> 0 \<and> now \<le> t)
        \<and> (maxSupply cm = None
            \<or> (\<exists>s m c. maxSupply cm = Some s \<and> bn (Str s) = Inr m
                  \<and> snd (getCurrentSupply tb idb cm) = Inr c \<and> c < int m)) \<longrightarrow>
      snd (getStatus tb idb now cm) = Inr \<lparr>verdict_status = Open, reason = None\<rparr>)"
proof (intro conjI impI)
  assume "endTime cm = Some 0"
  then show "getStatus tb idb now cm = getStatus tb idb now (cm\<lparr>endTime := None\<rparr>)"
    by (rule getStatus_endTime_zero)
next
  assume "endTime cm = Some 0"
  then show "snd (getStatus tb idb now cm) \<noteq> Inr \<lparr>verdict_status = Closed, reason = Some Ended\<rparr>"
    using getStatus_Ended_only [of tb idb now cm] by auto
next
  assume "startTime cm = Some 0"
  then show "getStatus tb idb now cm = getStatus tb idb now (cm\<lparr>startTime := None\<rparr>)"
    by (rule getStatus_startTime_zero)
next
  assume "startTime cm = Some 0"
  then show "snd (getStatus tb idb now cm)
          \<noteq> Inr \<lparr>verdict_status = Closed, reason = Some NotYetStarted\<rparr>"
    using getStatus_NotYetStarted_only [of tb idb now cm] by auto
next
  assume h: "endTime cm = Some 0 \<and> status cm \<noteq> Some Closed
        \<and> \<not> (\<exists>t. startTime cm = Some t \<and> t \<noteq> 0 \<and> now \<le> t)
        \<and> (maxSupply cm = None
            \<or> (\<exists>s m c. maxSupply cm = Some s \<and> bn (Str s) = Inr m
                  \<and> snd (getCurrentSupply tb idb cm) = Inr c \<and> c < int m))"
  then have e: "\<not> (\<exists>t. endTime cm = Some t \<and> t \<noteq> 0 \<and> t \<le> now)" by simp
  from h consider "maxSupply cm = None"
    | s m c where "maxSupply cm = Some s" "bn (Str s) = Inr m"
        "snd (getCurrentSupply tb idb cm) = Inr c" "c < int m"
    by (elim conjE disjE exE) blast+
  then show "snd (getStatus tb idb now cm) = Inr \<lparr>verdict_status = Open, reason = None\<rparr>"
  proof cases
    case 1
    with h e show ?thesis by (simp add: getStatus_no_cap)
  next
    case 2
    then have "s \<noteq> []" using bn_Str_nonempty by blast
    moreover obtain q where "getCurrentSupply tb idb cm = (q, Inr c)"
      using 2(3) by (cases "getCurrentSupply tb idb cm") auto
    ultimately show ?thesis
      using h e 2 getStatus_cap [of cm now s tb idb q "Inr c"] by (simp del: bn.simps)
  qed
qed

theorem getStatus_zero_time_witness:
  "endTime (mint_example\<lparr>endTime := Some 0\<rparr>) = Some 0
   \<and> snd (getStatus toBuffer_example (Inr store_example) 1700000000
        (mint_example\<lparr>endTime := Some 0\<rparr>))
       = Inr \<lparr>verdict_status = Open, reason = None\<rparr>
   \<and> startTime (mint_example\<lparr>startTime := Some 0\<rparr>) = Some 0
   \<and> snd (getStatus toBuffer_example (Inr store_example) 0
        (mint_example\<lparr>startTime := Some 0\<rparr>))
       \<noteq> Inr \<lparr>verdict_status = Closed, reason = Some NotYetStarted\<rparr>"
proof -
  let ?e = "mint_example\<lparr>endTime := Some 0\<rparr>"
  let ?s = "mint_example\<lparr>startTime := Some 0\<rparr>"
  have he: "endTime ?e = Some 0 \<and> status ?e \<noteq> Some Closed
        \<and> \<not> (\<exists>t. startTime ?e = Some t \<and> t \<noteq> 0 \<and> 1700000000 \<le> t)
        \<and> (maxSupply ?e = None
            \<or> (\<exists>s m c. maxSupply ?e = Some s \<and> bn (Str s) = Inr m
                  \<and> snd (getCurrentSupply toBuffer_example (Inr store_example) ?e) = Inr c
                  \<and> c < int m))"
    by (simp add: mint_example_def)
  have hs: "startTime ?s = Some 0" by (simp add: mint_example_def)
  from he getStatus_zero_time [where cm = ?e and tb = toBuffer_example
      and idb = "Inr store_example" and now = 1700000000]
  have a: "snd (getStatus toBuffer_example (Inr store_example) 1700000000 ?e)
       = Inr \<lparr>verdict_status = Open, reason = None\<rparr>"
    by blast
  from hs getStatus_zero_time [where cm = ?s and tb = toBuffer_example
      and idb = "Inr store_example" and now = 0]
  have b: "snd (getStatus toBuffer_example (Inr store_example) 0 ?s)
       \<noteq> Inr \<lparr>verdict_status = Closed, reason = Some NotYetStarted\<rparr>"
    by blast
  from he hs a b show ?thesis by blast
qed

section \<open>The counters\<close>

lemma coalesce_sql_sum: "coalesce (sql_sum xs) 0 = sum_list xs"
  by (simp add: coalesce_def sql_sum_def)

lemma truthy_string_present: "field \<noteq> Some [] \<Longrightarrow> truthy_string field = field"
  by (auto simp: truthy_string_def split: option.splits)

lemma getAmountMinted_token:
  "tokenId cm = Some t \<Longrightarrow> t \<noteq> [] \<Longrightarrow>
     getAmountMinted tb (Inr db) cm user =
       ([SumTransfersOfToken],
        Inr (sum_list (map te_amount (filter
          (\<lambda>r. te_address r = tb (contract cm) \<and> te_token_id r = t \<and> te_is_deleted r = 0
             \<and> te_from r = tb AddressZero \<and> te_to r = tb user)
          (nft_transfer_events db)))))"
  by (simp add: getAmountMinted_def truthy_string_def then_promise_def idb_one_def
        select_amount_minted_of_token_def coalesce_sql_sum)

lemma getAmountMinted_contract:
  "tokenId cm = None \<or> tokenId cm = Some [] \<Longrightarrow>
     getAmountMinted tb (Inr db) cm user =
       ([SumTransfersOfContract],
        Inr (sum_list (map te_amount (filter
          (\<lambda>r. te_address r = tb (contract cm) \<and> te_is_deleted r = 0
             \<and> te_from r = tb AddressZero \<and> te_to r = tb user)
          (nft_transfer_events db)))))"
  by (auto simp: getAmountMinted_def truthy_string_def then_promise_def idb_one_def
        select_amount_minted_of_contract_def coalesce_sql_sum)

lemma filter_cong_pred: "(\<And>r. P r = Q r) \<Longrightarrow> filter P xs = filter Q xs"
  by (induction xs) auto

text \<open>
  C6. When the store answers, \<open>getAmountMinted\<close> is the sum of \<open>amount\<close> over exactly the
  transfer records with \<open>address\<close> the contract, \<open>from\<close> the zero address, \<open>to\<close> the user,
  \<open>is_deleted = 0\<close> and, when the descriptor has a token id, \<open>token_id\<close> that id (every token
  of the contract when it has none). A record that is deleted, or whose sender is not the
  zero address, does not change the count wherever it stands in the table. A token id,
  when present, is a non-empty string.
\<close>

theorem getAmountMinted_sum:
  assumes "tokenId cm \<noteq> Some []"
  shows "snd (getAmountMinted tb (Inr db) cm user) =
           Inr (sum_list (map te_amount (filter
             (\<lambda>r. te_address r = tb (contract cm)
                \<and> te_from r = tb AddressZero
                \<and> te_to r = tb user
                \<and> te_is_deleted r = 0
                \<and> (case tokenId cm of None \<Rightarrow> True | Some t \<Rightarrow> te_token_id r = t))
             (nft_transfer_events db))))
       \<and> (te_is_deleted x \<noteq> 0 \<or> te_from x \<noteq> tb AddressZero \<longrightarrow>
            snd (getAmountMinted tb (Inr (db\<lparr>nft_transfer_events := before @ x # after\<rparr>)) cm user)
              = snd (getAmountMinted tb (Inr (db\<lparr>nft_transfer_events := before @ after\<rparr>)) cm user))"
proof (cases "tokenId cm")
  case None
  then show ?thesis
    by (auto simp: getAmountMinted_contract intro!: arg_cong [where f = sum_list]
          arg_cong [where f = "map te_amount"] filter_cong_pred)
next
  case (Some t)
  with assms have "t \<noteq> []" by auto
  with Some show ?thesis
    by (auto simp: getAmountMinted_token intro!: arg_cong [where f = sum_list]
          arg_cong [where f = "map te_amount"] filter_cong_pred)
qed

theorem getAmountMinted_sum_witness:
  "tokenId (mint_example\<lparr>tokenId := Some ''1''\<rparr>) \<noteq> Some []
   \<and> snd (getAmountMinted toBuffer_example (Inr store_example)
        (mint_example\<lparr>tokenId := Some ''1''\<rparr>) ''0xa1'') = Inr 2
   \<and> snd (getAmountMinted toBuffer_example (Inr store_example) mint_example ''0xa1'') = Inr 5
   \<and> te_is_deleted (transfer_example ''1'' 1 AddressZero 5) \<noteq> 0
   \<and> snd (getAmountMinted toBuffer_example
        (Inr (store_example\<lparr>nft_transfer_events :=
           [transfer_example ''1'' 0 AddressZero 2] @
           transfer_example ''1'' 1 AddressZero 5 # []\<rparr>)) mint_example ''0xa1'')
     = snd (getAmountMinted toBuffer_example
        (Inr (store_example\<lparr>nft_transfer_events :=
           [transfer_example ''1'' 0 AddressZero 2] @ []\<rparr>)) mint_example ''0xa1'')"
proof -
  have t: "tokenId (mint_example\<lparr>tokenId := Some ''1''\<rparr>) \<noteq> Some []"
    "tokenId mint_example \<noteq> Some []"
    by (simp_all add: mint_example_def)
  have d: "te_is_deleted (transfer_example ''1'' 1 AddressZero 5) \<noteq> 0"
    by (simp add: transfer_example_def)
  from getAmountMinted_sum [OF t(1), where tb = toBuffer_example and db = store_example
      and user = "''0xa1''"]
  have a: "snd (getAmountMinted toBuffer_example (Inr store_example)
        (mint_example\<lparr>tokenId := Some ''1''\<rparr>) ''0xa1'') = Inr 2"
    by (simp add: example_defs)
  from getAmountMinted_sum [OF t(2), where tb = toBuffer_example and db = store_example
      and user = "''0xa1''"]
  have b: "snd (getAmountMinted toBuffer_example (Inr store_example) mint_example ''0xa1'') = Inr 5"
    by (simp add: example_defs)
  from d getAmountMinted_sum [OF t(2), where tb = toBuffer_example and db = store_example
      and user = "''0xa1''" and x = "transfer_example ''1'' 1 AddressZero 5"
      and before = "[transfer_example ''1'' 0 AddressZero 2]" and after = "[]"]
  have c: "snd (getAmountMinted toBuffer_example
        (Inr (store_example\<lparr>nft_transfer_events :=
           [transfer_example ''1'' 0 AddressZero 2] @
           transfer_example ''1'' 1 AddressZero 5 # []\<rparr>)) mint_example ''0xa1'')
     = snd (getAmountMinted toBuffer_example
        (Inr (store_example\<lparr>nft_transfer_events :=
           [transfer_example ''1'' 0 AddressZero 2] @ []\<rparr>)) mint_example ''0xa1'')"
    by blast
  from t d a b c show ?thesis by blast
qed

text \<open>
  C10. Both statements of \<open>getAmountMinted\<close> return exactly one row on every table, so when
  the store answers the fetch with \<open>one\<close> fulfils and never raises the no-data error; with
  no matching mint transfer at all the result is 0.
\<close>

theorem getAmountMinted_no_records:
  "length (select_amount_minted_of_token c t f u db) = 1
   \<and> length (select_amount_minted_of_contract c f u db) = 1
   \<and> (\<exists>n. snd (getAmountMinted tb (Inr db) cm user) = Inr n)
   \<and> snd (getAmountMinted tb (Inr db) cm user) \<noteq> Inl NoData
   \<and> (tokenId cm \<noteq> Some [] \<and>
        (\<forall>r \<in> set (nft_transfer_events db).
           \<not> (te_address r = tb (contract cm)
              \<and> te_from r = tb AddressZero
              \<and> te_to r = tb user
              \<and> te_is_deleted r = 0
              \<and> (case tokenId cm of None \<Rightarrow> True | Some t \<Rightarrow> te_token_id r = t))) \<longrightarrow>
      snd (getAmountMinted tb (Inr db) cm user) = Inr 0)"
proof (intro conjI impI)
  show "length (select_amount_minted_of_token c t f u db) = 1"
    by (simp add: select_amount_minted_of_token_def)
  show "length (select_amount_minted_of_contract c f u db) = 1"
    by (simp add: select_amount_minted_of_contract_def)
  show ex: "\<exists>n. snd (getAmountMinted tb (Inr db) cm user) = Inr n"
  proof (cases "tokenId cm")
    case None
    then show ?thesis by (simp add: getAmountMinted_contract)
  next
    case (Some t')
    then show ?thesis
      by (cases "t' = []") (simp_all add: getAmountMinted_contract getAmountMinted_token)
  qed
  then show "snd (getAmountMinted tb (Inr db) cm user) \<noteq> Inl NoData" by auto
next
  assume h: "tokenId cm \<noteq> Some [] \<and>
        (\<forall>r \<in> set (nft_transfer_events db).
           \<not> (te_address r = tb (contract cm)
              \<and> te_from r = tb AddressZero
              \<and> te_to r = tb user
              \<and> te_is_deleted r = 0
              \<and> (case tokenId cm of None \<Rightarrow> True | Some t \<Rightarrow> te_token_id r = t)))"
  show "snd (getAmountMinted tb (Inr db) cm user) = Inr 0"
  proof (cases "tokenId cm")
    case None
    with h have "filter (\<lambda>r. te_address r = tb (contract cm) \<and> te_is_deleted r = 0
             \<and> te_from r = tb AddressZero \<and> te_to r = tb user) (nft_transfer_events db) = []"
      by (auto simp: filter_empty_conv)
    with None show ?thesis by (simp add: getAmountMinted_contract)
  next
    case (Some t)
    with h have "t \<noteq> []" by auto
    moreover from Some h
    have "filter (\<lambda>r. te_address r = tb (contract cm) \<and> te_token_id r = t \<and> te_is_deleted r = 0
             \<and> te_from r = tb AddressZero \<and> te_to r = tb user) (nft_transfer_events db) = []"
      by (auto simp: filter_empty_conv)
    ultimately show ?thesis using Some by (simp add: getAmountMinted_token)
  qed
qed

theorem getAmountMinted_no_records_witness:
  "tokenId (mint_example\<lparr>tokenId := Some ''3''\<rparr>) \<noteq> Some []
   \<and> snd (getAmountMinted toBuffer_example (Inr store_example)
        (mint_example\<lparr>tokenId := Some ''3''\<rparr>) ''0xa1'') = Inr 0
   \<and> snd (getAmountMinted toBuffer_example (Inr store_example) mint_example ''0xd4'') = Inr 0"
proof -
  have a: "tokenId (mint_example\<lparr>tokenId := Some ''3''\<rparr>) \<noteq> Some [] \<and>
        (\<forall>r \<in> set (nft_transfer_events store_example).
           \<not> (te_address r = toBuffer_example (contract (mint_example\<lparr>tokenId := Some ''3''\<rparr>))
              \<and> te_from r = toBuffer_example AddressZero
              \<and> te_to r = toBuffer_example ''0xa1''
              \<and> te_is_deleted r = 0
              \<and> (case tokenId (mint_example\<lparr>tokenId := Some ''3''\<rparr>) of
                    None \<Rightarrow> True | Some t \<Rightarrow> te_token_id r = t)))"
    by (simp add: example_defs)
  have b: "tokenId mint_example \<noteq> Some [] \<and>
        (\<forall>r \<in> set (nft_transfer_events store_example).
           \<not> (te_address r = toBuffer_example (contract mint_example)
              \<and> te_from r = toBuffer_example AddressZero
              \<and> te_to r = toBuffer_example ''0xd4''
              \<and> te_is_deleted r = 0
              \<and> (case tokenId mint_example of None \<Rightarrow> True | Some t \<Rightarrow> te_token_id r = t)))"
    by (simp add: example_defs)
  from a getAmountMinted_no_records [where tb = toBuffer_example and db = store_example
      and cm = "mint_example\<lparr>tokenId := Some ''3''\<rparr>" and user = "''0xa1''"]
  have a': "snd (getAmountMinted toBuffer_example (Inr store_example)
        (mint_example\<lparr>tokenId := Some ''3''\<rparr>) ''0xa1'') = Inr 0"
    by blast
  from b getAmountMinted_no_records [where tb = toBuffer_example and db = store_example
      and cm = mint_example and user = "''0xd4''"]
  have b': "snd (getAmountMinted toBuffer_example (Inr store_example) mint_example ''0xd4'')
      = Inr 0"
    by blast
  from a a' b' show ?thesis by blast
qed

lemma getCurrentSupply_token:
  "tokenId cm = Some t \<Longrightarrow> t \<noteq> [] \<Longrightarrow>
     getCurrentSupply tb (Inr db) cm =
       ([SumBalancesOfToken],
        Inr (sum_list (map nb_amount (filter
          (\<lambda>r. nb_contract r = tb (contract cm) \<and> nb_token_id r = t \<and> nb_amount r > 0)
          (nft_balances db)))))"
  by (simp add: getCurrentSupply_def truthy_string_def then_promise_def idb_oneOrNone_def
        select_token_count_of_token_def coalesce_sql_sum)

lemma getCurrentSupply_collection:
  "tokenId cm = None \<or> tokenId cm = Some [] \<Longrightarrow>
     getCurrentSupply tb (Inr db) cm =
       ([TokenCountOfCollection],
        case filter (\<lambda>r. c_id r = collection cm) (collections db) of
          [] \<Rightarrow> Inr 0
        | [r] \<Rightarrow> Inr (case c_token_count r of None \<Rightarrow> 0 | Some n \<Rightarrow> n)
        | _ \<Rightarrow> Inl MultipleRows)"
  by (auto simp: getCurrentSupply_def truthy_string_def then_promise_def idb_oneOrNone_def
        select_token_count_of_collection_def coalesce_def split: list.splits option.splits)

text \<open>
  C7. When the store answers: with a token id, \<open>getCurrentSupply\<close> is the sum of \<open>amount\<close>
  over the balance records of the contract and the token with a positive amount, and 0
  when there is no such record; without a token id, it is the cached token count of the
  collection record, and 0 when there is no record of the collection.
\<close>

theorem getCurrentSupply_count:
  "(tokenId cm = Some t \<and> t \<noteq> [] \<longrightarrow>
      getCurrentSupply tb (Inr db) cm =
        ([SumBalancesOfToken],
         Inr (sum_list (map nb_amount (filter
           (\<lambda>r. nb_contract r = tb (contract cm) \<and> nb_token_id r = t \<and> nb_amount r > 0)
           (nft_balances db))))))
   \<and> (tokenId cm = Some t \<and> t \<noteq> [] \<and>
        (\<forall>r \<in> set (nft_balances db).
           \<not> (nb_contract r = tb (contract cm) \<and> nb_token_id r = t \<and> nb_amount r > 0)) \<longrightarrow>
      getCurrentSupply tb (Inr db) cm = ([SumBalancesOfToken], Inr 0))
   \<and> (tokenId cm = None \<and> filter (\<lambda>r. c_id r = collection cm) (collections db) = [row]
        \<and> c_token_count row = Some n \<longrightarrow>
      getCurrentSupply tb (Inr db) cm = ([TokenCountOfCollection], Inr n))
   \<and> (tokenId cm = None \<and> (\<forall>r \<in> set (collections db). c_id r \<noteq> collection cm) \<longrightarrow>
      getCurrentSupply tb (Inr db) cm = ([TokenCountOfCollection], Inr 0))"
proof (intro conjI impI)
  assume "tokenId cm = Some t \<and> t \<noteq> []"
  then show "getCurrentSupply tb (Inr db) cm =
        ([SumBalancesOfToken],
         Inr (sum_list (map nb_amount (filter
           (\<lambda>r. nb_contract r = tb (contract cm) \<and> nb_token_id r = t \<and> nb_amount r > 0)
           (nft_balances db)))))"
    by (simp add: getCurrentSupply_token)
next
  assume h: "tokenId cm = Some t \<and> t \<noteq> [] \<and>
        (\<forall>r \<in> set (nft_balances db).
           \<not> (nb_contract r = tb (contract cm) \<and> nb_token_id r = t \<and> nb_amount r > 0))"
  then have "filter (\<lambda>r. nb_contract r = tb (contract cm) \<and> nb_token_id r = t \<and> nb_amount r > 0)
           (nft_balances db) = []"
    by (auto simp: filter_empty_conv)
  with h show "getCurrentSupply tb (Inr db) cm = ([SumBalancesOfToken], Inr 0)"
    by (simp add: getCurrentSupply_token)
next
  assume "tokenId cm = None \<and> filter (\<lambda>r. c_id r = collection cm) (collections db) = [row]
        \<and> c_token_count row = Some n"
  then show "getCurrentSupply tb (Inr db) cm = ([TokenCountOfCollection], Inr n)"
    by (simp add: getCurrentSupply_collection)
next
  assume h: "tokenId cm = None \<and> (\<forall>r \<in> set (collections db). c_id r \<noteq> collection cm)"
  then have "filter (\<lambda>r. c_id r = collection cm) (collections db) = []"
    by (auto simp: filter_empty_conv)
  with h show "getCurrentSupply tb (Inr db) cm = ([TokenCountOfCollection], Inr 0)"
    by (simp add: getCurrentSupply_collection)
qed

theorem getCurrentSupply_count_witness:
  "getCurrentSupply toBuffer_example (Inr store_example) (mint_example\<lparr>tokenId := Some ''1''\<rparr>)
     = ([SumBalancesOfToken], Inr 10)
   \<and> getCurrentSupply toBuffer_example (Inr store_example) (mint_example\<lparr>tokenId := Some ''3''\<rparr>)
     = ([SumBalancesOfToken], Inr 0)
   \<and> getCurrentSupply toBuffer_example (Inr store_example) mint_example
     = ([TokenCountOfCollection], Inr 100)
   \<and> getCurrentSupply toBuffer_example (Inr store_example) (mint_example\<lparr>collection := ''0xee''\<rparr>)
     = ([TokenCountOfCollection], Inr 0)"
proof -
  let ?one = "mint_example\<lparr>tokenId := Some ''1''\<rparr>"
  let ?three = "mint_example\<lparr>tokenId := Some ''3''\<rparr>"
  let ?other = "mint_example\<lparr>collection := ''0xee''\<rparr>"
  have h1: "tokenId ?one = Some ''1'' \<and> ''1'' \<noteq> []" by (simp add: mint_example_def)
  have h2: "tokenId ?three = Some ''3'' \<and> ''3'' \<noteq> [] \<and>
        (\<forall>r \<in> set (nft_balances store_example).
           \<not> (nb_contract r = toBuffer_example (contract ?three) \<and> nb_token_id r = ''3''
              \<and> nb_amount r > 0))"
    by (simp add: example_defs)
  have h3: "tokenId mint_example = None
      \<and> filter (\<lambda>r. c_id r = collection mint_example) (collections store_example)
          = [\<lparr>c_id = ''0xc0'', c_token_count = Some 100\<rparr>]
      \<and> c_token_count \<lparr>c_id = ''0xc0'', c_token_count = Some 100\<rparr> = Some 100"
    by (simp add: example_defs)
  have h4: "tokenId ?other = None
      \<and> (\<forall>r \<in> set (collections store_example). c_id r \<noteq> collection ?other)"
    by (simp add: example_defs)
  from h1 getCurrentSupply_count [where cm = ?one and t = "''1''" and tb = toBuffer_example
      and db = store_example]
  have a: "getCurrentSupply toBuffer_example (Inr store_example) ?one
     = ([SumBalancesOfToken], Inr 10)"
    by (simp add: example_defs)
  from h2 getCurrentSupply_count [where cm = ?three and t = "''3''" and tb = toBuffer_example
      and db = store_example]
  have b: "getCurrentSupply toBuffer_example (Inr store_example) ?three
     = ([SumBalancesOfToken], Inr 0)"
    by blast
  from h3 getCurrentSupply_count [where cm = mint_example and tb = toBuffer_example
      and db = store_example and row = "\<lparr>c_id = ''0xc0'', c_token_count = Some 100\<rparr>"
      and n = 100]
  have c: "getCurrentSupply toBuffer_example (Inr store_example) mint_example
     = ([TokenCountOfCollection], Inr 100)"
    by blast
  from h4 getCurrentSupply_count [where cm = ?other and tb = toBuffer_example
      and db = store_example]
  have d: "getCurrentSupply toBuffer_example (Inr store_example) ?other
     = ([TokenCountOfCollection], Inr 0)"
    by blast
  from a b c d show ?thesis by blast
qed

text \<open>
  The earlier revision in src/unnamed/part_000 agrees with \<open>getCurrentSupply\<close> on a token
  id, and rejects with the no-data error where the collection has no record.
\<close>

lemma getCurrentSupply_part_000_absent:
  "tokenId cm = None \<Longrightarrow> \<forall>r \<in> set (collections db). c_id r \<noteq> collection cm \<Longrightarrow>
     getCurrentSupply_part_000 tb (Inr db) cm = ([TokenCountOfCollection], Inl NoData)"
proof -
  assume t: "tokenId cm = None" and "\<forall>r \<in> set (collections db). c_id r \<noteq> collection cm"
  then have "filter (\<lambda>r. c_id r = collection cm) (collections db) = []"
    by (auto simp: filter_empty_conv)
  with t show ?thesis
    by (simp add: getCurrentSupply_part_000_def truthy_string_def idb_one_def
          select_raw_token_count_of_collection_def)
qed

lemma getCurrentSupply_part_000_token:
  "tokenId cm = Some t \<Longrightarrow> t \<noteq> [] \<Longrightarrow>
     getCurrentSupply_part_000 tb (Inr db) cm = getCurrentSupply tb (Inr db) cm"
  by (simp add: getCurrentSupply_part_000_def getCurrentSupply_def truthy_string_def
        then_promise_def idb_one_def idb_oneOrNone_def select_token_count_of_token_def)

end
